theory Spec2Isabelle
  imports Complex_Main
begin

section \<open>Tabular data\<close>

text \<open>
  The programs under \<^verbatim>\<open>src/manusia\<close> work on a pandas DataFrame read from a CSV file.
  A frame is an ordered list of named columns; a column has one dtype and holds one cell
  per row.  \<^verbatim>\<open>read_csv\<close> yields the dtypes int64, float64, bool and object (strings,
  Python booleans and NaN); the type-conversion stage of the loader adds datetime64.

  Numbers are exact: a float is a rational or NaN (\<open>None\<close>), an integer is unbounded.
  Infinities, rounding and the wrap-around of int64 are outside this model.
\<close>

datatype obj = Str string | PyBool bool

datatype column =
    Float64Col "rat option list"
  | Int64Col "int list"
  | ObjectCol "obj option list"
  | BoolCol "bool list"
  | DatetimeCol "int option list"

datatype dtype = DFloat64 | DInt64 | DObject | DBool | DDatetime64

fun dtype_of :: "column \<Rightarrow> dtype" where
  "dtype_of (Float64Col _) = DFloat64"
| "dtype_of (Int64Col _) = DInt64"
| "dtype_of (ObjectCol _) = DObject"
| "dtype_of (BoolCol _) = DBool"
| "dtype_of (DatetimeCol _) = DDatetime64"

text \<open>The value found in one cell, as a row lambda, a comparison or \<^verbatim>\<open>to_dict\<close> sees it.\<close>

datatype pyval =
    VNaN
  | VFloat rat
  | VInt int
  | VStr string
  | VBool bool
  | VTimestamp int
  | VNaT

fun obj_val :: "obj option \<Rightarrow> pyval" where
  "obj_val None = VNaN"
| "obj_val (Some (Str s)) = VStr s"
| "obj_val (Some (PyBool b)) = VBool b"

fun float_val :: "rat option \<Rightarrow> pyval" where
  "float_val None = VNaN"
| "float_val (Some x) = VFloat x"

fun time_val :: "int option \<Rightarrow> pyval" where
  "time_val None = VNaT"
| "time_val (Some t) = VTimestamp t"

fun cells :: "column \<Rightarrow> pyval list" where
  "cells (Float64Col xs) = map float_val xs"
| "cells (Int64Col xs) = map VInt xs"
| "cells (ObjectCol xs) = map obj_val xs"
| "cells (BoolCol xs) = map VBool xs"
| "cells (DatetimeCol xs) = map time_val xs"

type_synonym dataframe = "(string \<times> column) list"

definition columns :: "dataframe \<Rightarrow> string list" where
  "columns df = map fst df"

definition col :: "dataframe \<Rightarrow> string \<Rightarrow> column option" where
  "col df name = map_of df name"

definition col_len :: "column \<Rightarrow> nat" where
  "col_len c = length (cells c)"

fun nrows :: "dataframe \<Rightarrow> nat" where
  "nrows [] = 0"
| "nrows ((_, c) # _) = col_len c"

text \<open>A well-formed frame: column names are distinct and all columns have the same length.\<close>

definition wf_frame :: "dataframe \<Rightarrow> bool" where
  "wf_frame df \<longleftrightarrow> distinct (columns df) \<and> (\<forall>(n, c) \<in> set df. col_len c = nrows df)"

text \<open>\<^verbatim>\<open>df[name] = c\<close>: an existing column is replaced in place, a new one is appended.\<close>

definition set_column :: "string \<Rightarrow> column \<Rightarrow> dataframe \<Rightarrow> dataframe" where
  "set_column name c df =
     (if name \<in> set (columns df)
      then map (\<lambda>(n, d). if n = name then (n, c) else (n, d)) df
      else df @ [(name, c)])"

text \<open>\<^verbatim>\<open>pd.isna\<close> / \<^verbatim>\<open>notna\<close> on one value.\<close>

fun isna :: "pyval \<Rightarrow> bool" where
  "isna VNaN = True"
| "isna VNaT = True"
| "isna _ = False"

definition notna :: "pyval \<Rightarrow> bool" where
  "notna v = (\<not> isna v)"

text \<open>Boolean indexing \<^verbatim>\<open>df[mask]\<close>: the rows whose mask entry is true.\<close>

definition keep :: "bool list \<Rightarrow> 'a list \<Rightarrow> 'a list" where
  "keep m xs = map snd (filter fst (zip m xs))"

fun mask_column :: "bool list \<Rightarrow> column \<Rightarrow> column" where
  "mask_column m (Float64Col xs) = Float64Col (keep m xs)"
| "mask_column m (Int64Col xs) = Int64Col (keep m xs)"
| "mask_column m (ObjectCol xs) = ObjectCol (keep m xs)"
| "mask_column m (BoolCol xs) = BoolCol (keep m xs)"
| "mask_column m (DatetimeCol xs) = DatetimeCol (keep m xs)"

definition mask_rows :: "bool list \<Rightarrow> dataframe \<Rightarrow> dataframe" where
  "mask_rows m df = map (\<lambda>(n, c). (n, mask_column m c)) df"

section \<open>Errors\<close>

datatype error = KeyError string | TypeError | ValueError | ZeroDivisionError

definition bind :: "error + 'a \<Rightarrow> ('a \<Rightarrow> error + 'b) \<Rightarrow> error + 'b" where
  "bind m f = (case m of Inl e \<Rightarrow> Inl e | Inr x \<Rightarrow> f x)"

fun mapM :: "('a \<Rightarrow> error + 'b) \<Rightarrow> 'a list \<Rightarrow> error + 'b list" where
  "mapM f [] = Inr []"
| "mapM f (x # xs) =
     (case f x of
        Inl e \<Rightarrow> Inl e
      | Inr y \<Rightarrow> (case mapM f xs of Inl e \<Rightarrow> Inl e | Inr ys \<Rightarrow> Inr (y # ys)))"

text \<open>\<^verbatim>\<open>df[name]\<close> raises KeyError when the column is absent.\<close>

definition getcol :: "dataframe \<Rightarrow> string \<Rightarrow> error + column" where
  "getcol df name = (case col df name of None \<Rightarrow> Inl (KeyError name) | Some c \<Rightarrow> Inr c)"

section \<open>The library functions taken as parameters\<close>

text \<open>
  Three conversions of pandas are not part of the repository and are taken as given:
  parsing a date string (\<open>None\<close>: the string is not a date, \<open>Some None\<close>: it parses
  to NaT, \<open>Some (Some t)\<close>: a timestamp of \<open>t\<close> nanoseconds), reading a float as
  nanoseconds, and printing a timestamp with \<^verbatim>\<open>str\<close>.
\<close>

record pandas =
  parse_datetime :: "string \<Rightarrow> int option option"
  float_to_ns :: "rat \<Rightarrow> int"
  timestamp_str :: "int \<Rightarrow> string"

section \<open>DataLoader: the cleaning stages\<close>

subsection \<open>\<^verbatim>\<open>_handle_missing_values\<close>\<close>

definition select_dtypes :: "dtype list \<Rightarrow> dataframe \<Rightarrow> string list" where
  "select_dtypes include df = map fst (filter (\<lambda>(n, c). dtype_of c \<in> set include) df)"

text \<open>
  \<^verbatim>\<open>fillna(0)\<close> is applied to float64 and int64 columns only, \<^verbatim>\<open>fillna('unknown')\<close> to
  object columns only; an int64 column has no missing entry.  The other equations are
  never reached from the loader.
\<close>

fun fillna_zero :: "column \<Rightarrow> column" where
  "fillna_zero (Float64Col xs) = Float64Col (map (\<lambda>x. case x of None \<Rightarrow> Some 0 | Some v \<Rightarrow> Some v) xs)"
| "fillna_zero c = c"

fun fillna_unknown :: "column \<Rightarrow> column" where
  "fillna_unknown (ObjectCol xs) =
     ObjectCol (map (\<lambda>x. case x of None \<Rightarrow> Some (Str ''unknown'') | Some v \<Rightarrow> Some v) xs)"
| "fillna_unknown c = c"

definition update_cols :: "string list \<Rightarrow> (column \<Rightarrow> column) \<Rightarrow> dataframe \<Rightarrow> dataframe" where
  "update_cols names f df = map (\<lambda>(n, c). if n \<in> set names then (n, f c) else (n, c)) df"

definition handle_missing_values :: "dataframe \<Rightarrow> dataframe" where
  "handle_missing_values df =
     (let numeric_cols = select_dtypes [DFloat64, DInt64] df;
          df1 = update_cols numeric_cols fillna_zero df;
          categorical_cols = select_dtypes [DObject] df1
      in update_cols categorical_cols fillna_unknown df1)"

subsection \<open>\<^verbatim>\<open>_convert_data_types\<close>\<close>

text \<open>
  \<^verbatim>\<open>pd.to_datetime\<close> on a column: a datetime column is returned as it is, integers and
  floats are nanoseconds since the epoch (NaN becomes NaT), a bool column is refused,
  and the strings of an object column are parsed one by one, the first failure raising.
\<close>

fun to_datetime_obj :: "pandas \<Rightarrow> obj option \<Rightarrow> error + int option" where
  "to_datetime_obj P None = Inr None"
| "to_datetime_obj P (Some (PyBool b)) = Inl TypeError"
| "to_datetime_obj P (Some (Str s)) =
     (case parse_datetime P s of None \<Rightarrow> Inl ValueError | Some t \<Rightarrow> Inr t)"

fun to_datetime :: "pandas \<Rightarrow> column \<Rightarrow> error + column" where
  "to_datetime P (DatetimeCol xs) = Inr (DatetimeCol xs)"
| "to_datetime P (Int64Col xs) = Inr (DatetimeCol (map Some xs))"
| "to_datetime P (Float64Col xs) = Inr (DatetimeCol (map (map_option (float_to_ns P)) xs))"
| "to_datetime P (BoolCol xs) = Inl TypeError"
| "to_datetime P (ObjectCol xs) = bind (mapM (to_datetime_obj P) xs) (\<lambda>ts. Inr (DatetimeCol ts))"

text \<open>
  \<^verbatim>\<open>astype(bool)\<close>: a number is true when it is not zero (NaN is true), a string when
  it is not empty.  Casting a datetime column is refused; the loader never does it,
  since the only datetime column is \<^verbatim>\<open>date\<close>, which is not a flag column.
\<close>

fun truthy :: "pyval \<Rightarrow> bool" where
  "truthy VNaN = True"
| "truthy (VFloat x) = (x \<noteq> 0)"
| "truthy (VInt i) = (i \<noteq> 0)"
| "truthy (VStr s) = (s \<noteq> [])"
| "truthy (VBool b) = b"
| "truthy (VTimestamp t) = True"
| "truthy VNaT = True"

fun astype_bool :: "column \<Rightarrow> error + column" where
  "astype_bool (DatetimeCol xs) = Inl TypeError"
| "astype_bool c = Inr (BoolCol (map truthy (cells c)))"

definition bool_cols :: "string list" where
  "bool_cols = [''playoffs'', ''firstblood'', ''firstbloodkill'', ''firstbloodassist'', ''firstbloodvictim'']"

fun convert_bool_cols :: "string list \<Rightarrow> dataframe \<Rightarrow> error + dataframe" where
  "convert_bool_cols [] df = Inr df"
| "convert_bool_cols (c # cs) df =
     (case col df c of
        None \<Rightarrow> convert_bool_cols cs df
      | Some k \<Rightarrow> bind (astype_bool k) (\<lambda>k'. convert_bool_cols cs (set_column c k' df)))"

definition convert_data_types :: "pandas \<Rightarrow> dataframe \<Rightarrow> error + dataframe" where
  "convert_data_types P df =
     bind (case col df ''date'' of
             None \<Rightarrow> Inr df
           | Some d \<Rightarrow> bind (to_datetime P d) (\<lambda>d'. Inr (set_column ''date'' d' df)))
          (convert_bool_cols bool_cols)"

subsection \<open>\<^verbatim>\<open>_add_derived_features\<close>\<close>

text \<open>
  The row lambdas compute with the Python values of a row.  A number is an int, a float
  or NaN; a Python bool counts as the int 1 or 0; adding two strings concatenates them;
  every other combination raises TypeError.
\<close>

datatype number = NInt int | NFloat rat | NNaN

fun as_number :: "pyval \<Rightarrow> number option" where
  "as_number VNaN = Some NNaN"
| "as_number (VFloat x) = Some (NFloat x)"
| "as_number (VInt i) = Some (NInt i)"
| "as_number (VBool b) = Some (NInt (if b then 1 else 0))"
| "as_number _ = None"

fun number_val :: "number \<Rightarrow> pyval" where
  "number_val (NInt i) = VInt i"
| "number_val (NFloat x) = VFloat x"
| "number_val NNaN = VNaN"

fun to_rat :: "number \<Rightarrow> rat option" where
  "to_rat (NInt i) = Some (of_int i)"
| "to_rat (NFloat x) = Some x"
| "to_rat NNaN = None"

fun number_add :: "number \<Rightarrow> number \<Rightarrow> number" where
  "number_add (NInt i) (NInt j) = NInt (i + j)"
| "number_add a b =
     (case (to_rat a, to_rat b) of (Some x, Some y) \<Rightarrow> NFloat (x + y) | _ \<Rightarrow> NNaN)"

text \<open>\<^verbatim>\<open>a + b\<close>\<close>

fun py_add :: "pyval \<Rightarrow> pyval \<Rightarrow> error + pyval" where
  "py_add (VStr s) (VStr t) = Inr (VStr (s @ t))"
| "py_add a b =
     (case (as_number a, as_number b) of
        (Some x, Some y) \<Rightarrow> Inr (number_val (number_add x y))
      | _ \<Rightarrow> Inl TypeError)"

text \<open>\<^verbatim>\<open>a > n\<close> for an int \<open>n\<close>; a comparison with NaN is false.\<close>

definition py_gt :: "pyval \<Rightarrow> int \<Rightarrow> error + bool" where
  "py_gt a n =
     (case as_number a of
        None \<Rightarrow> Inl TypeError
      | Some x \<Rightarrow> Inr (case to_rat x of None \<Rightarrow> False | Some q \<Rightarrow> of_int n < q))"

text \<open>\<^verbatim>\<open>max(1, a)\<close>: the first argument stays unless the second is greater.\<close>

definition py_max1 :: "pyval \<Rightarrow> error + pyval" where
  "py_max1 a = bind (py_gt a 1) (\<lambda>g. Inr (if g then a else VInt 1))"

text \<open>\<^verbatim>\<open>a / b\<close>: true division, the result is a float.\<close>

definition py_truediv :: "pyval \<Rightarrow> pyval \<Rightarrow> error + number" where
  "py_truediv a b =
     (case (as_number a, as_number b) of
        (Some x, Some y) \<Rightarrow>
          (case (to_rat x, to_rat y) of
             (Some p, Some q) \<Rightarrow> if q = 0 then Inl ZeroDivisionError else Inr (NFloat (p / q))
           | _ \<Rightarrow> Inr NNaN)
      | _ \<Rightarrow> Inl TypeError)"

text \<open>A row of the frame: \<^verbatim>\<open>row[name]\<close> raises KeyError for an unknown column.\<close>

type_synonym row = "string \<Rightarrow> pyval option"

definition row_at :: "dataframe \<Rightarrow> nat \<Rightarrow> row" where
  "row_at df i = (\<lambda>name. map_option (\<lambda>c. cells c ! i) (col df name))"

definition getitem :: "row \<Rightarrow> string \<Rightarrow> error + pyval" where
  "getitem r name = (case r name of None \<Rightarrow> Inl (KeyError name) | Some v \<Rightarrow> Inr v)"

text \<open>\<^verbatim>\<open>lambda row: (row['kills'] + row['assists']) / max(1, row['deaths'])\<close>\<close>

definition kda_lambda :: "row \<Rightarrow> error + number" where
  "kda_lambda r =
     bind (getitem r ''kills'') (\<lambda>k.
     bind (getitem r ''assists'') (\<lambda>a.
     bind (py_add k a) (\<lambda>s.
     bind (getitem r ''deaths'') (\<lambda>d.
     bind (py_max1 d) (\<lambda>m.
     py_truediv s m)))))"

text \<open>
  \<^verbatim>\<open>lambda row: (row['kills'] + row['assists']) / max(1, row['teamkills'])
               if row['teamkills'] > 0 else 0\<close>
\<close>

definition kill_participation_lambda :: "row \<Rightarrow> error + number" where
  "kill_participation_lambda r =
     bind (getitem r ''teamkills'') (\<lambda>t.
     bind (py_gt t 0) (\<lambda>g.
       if g then
         bind (getitem r ''kills'') (\<lambda>k.
         bind (getitem r ''assists'') (\<lambda>a.
         bind (py_add k a) (\<lambda>s.
         bind (getitem r ''teamkills'') (\<lambda>t'.
         bind (py_max1 t') (\<lambda>m.
         py_truediv s m)))))
       else Inr (NInt 0)))"

text \<open>
  The Series built from the results of a row lambda is int64 when every result is an
  int and float64 otherwise.
\<close>

fun is_int :: "number \<Rightarrow> bool" where
  "is_int (NInt _) = True"
| "is_int _ = False"

fun int_of :: "number \<Rightarrow> int" where
  "int_of (NInt i) = i"
| "int_of _ = 0"

definition series_of :: "number list \<Rightarrow> column" where
  "series_of ns =
     (if list_all is_int ns then Int64Col (map int_of ns) else Float64Col (map to_rat ns))"

text \<open>
  \<^verbatim>\<open>df.apply(f, axis=1)\<close> calls \<open>f\<close> on every row in order.  On a frame without rows
  pandas returns a frame instead of a Series, and assigning that frame to a single
  column raises ValueError; the model keeps this.
\<close>

definition apply_axis1 :: "(row \<Rightarrow> error + number) \<Rightarrow> dataframe \<Rightarrow> error + column" where
  "apply_axis1 f df =
     (if nrows df = 0 then Inl ValueError
      else bind (mapM (\<lambda>i. f (row_at df i)) [0..<nrows df]) (\<lambda>ns. Inr (series_of ns)))"

definition has_columns :: "dataframe \<Rightarrow> string list \<Rightarrow> bool" where
  "has_columns df names = list_all (\<lambda>c. c \<in> set (columns df)) names"

definition add_kda :: "dataframe \<Rightarrow> error + dataframe" where
  "add_kda df =
     (if has_columns df [''kills'', ''deaths'', ''assists'']
      then bind (apply_axis1 kda_lambda df) (\<lambda>c. Inr (set_column ''kda'' c df))
      else Inr df)"

definition add_kill_participation :: "dataframe \<Rightarrow> error + dataframe" where
  "add_kill_participation df =
     (if has_columns df [''kills'', ''assists'', ''teamkills'']
      then bind (apply_axis1 kill_participation_lambda df)
                (\<lambda>c. Inr (set_column ''kill_participation'' c df))
      else Inr df)"

definition add_derived_features :: "dataframe \<Rightarrow> error + dataframe" where
  "add_derived_features df = bind (add_kda df) add_kill_participation"

subsection \<open>\<^verbatim>\<open>preprocess_data\<close> and \<^verbatim>\<open>_split_data\<close>\<close>

record loader =
  data :: "dataframe option"
  player_data :: "dataframe option"
  team_data :: "dataframe option"

definition cleaning_pipeline :: "pandas \<Rightarrow> (dataframe \<Rightarrow> error + dataframe) list" where
  "cleaning_pipeline P =
     [\<lambda>df. Inr (handle_missing_values df), convert_data_types P, add_derived_features]"

text \<open>\<^verbatim>\<open>reduce(lambda df, func: func(df), cleaning_pipeline, self.data)\<close>\<close>

definition run_pipeline :: "pandas \<Rightarrow> dataframe \<Rightarrow> error + dataframe" where
  "run_pipeline P df = foldl bind (Inr df) (cleaning_pipeline P)"

definition split_data :: "loader \<Rightarrow> error + loader" where
  "split_data L =
     (case data L of
        None \<Rightarrow> Inr L
      | Some df \<Rightarrow>
          bind (getcol df ''playername'') (\<lambda>p.
            let L1 = L\<lparr>player_data := Some (mask_rows (map notna (cells p)) df)\<rparr> in
            bind (getcol df ''teamname'') (\<lambda>t.
              Inr (L1\<lparr>team_data :=
                     Some (mask_rows (map (\<lambda>(pv, tv). isna pv \<and> notna tv) (zip (cells p) (cells t))) df)\<rparr>))))"

text \<open>
  \<^verbatim>\<open>preprocess_data\<close> on a loader whose raw data has been read (\<^verbatim>\<open>load_data\<close> reads
  the file when \<open>data\<close> is still \<open>None\<close>; reading is outside the model, so the raw
  frame is an argument).
\<close>

definition preprocess_data :: "pandas \<Rightarrow> dataframe \<Rightarrow> error + loader" where
  "preprocess_data P raw =
     bind (run_pipeline P raw) (\<lambda>df.
       split_data \<lparr>data = Some df, player_data = None, team_data = None\<rparr>)"

section \<open>StatsAnalyzer: win rates\<close>









section \<open>DataVisualizer\<close>


text \<open>The messages and titles, as UTF-8 bytes.\<close>

definition a_tilde :: string where "a_tilde = [CHR 0xC3, CHR 0xA3]"












text \<open>
  \<^verbatim>\<open>unique()\<close> lists the values of a column in order of first appearance, a missing
  value included once.  \<^verbatim>\<open>value_counts()\<close> counts the non-missing values and orders them
  by falling count, values of equal count in order of first appearance.
  \<^verbatim>\<open>nlargest(n)\<close> keeps the first \<open>n\<close> entries of the falling order and nothing when
  \<open>n \<le> 0\<close>.
\<close>

definition unique :: "'a list \<Rightarrow> 'a list" where
  "unique xs = rev (remdups (rev xs))"












section \<open>Record lookup\<close>

subsection \<open>\<^verbatim>\<open>DataLoader.get_record_by_id\<close>\<close>

text \<open>
  The values of the dictionary \<^verbatim>\<open>record.iloc[0].to_dict()\<close>, and of the dictionary the
  route returns.  The cells of int64, float64 and bool columns are taken to arrive as
  numpy scalars, the least favourable case for serialisation; an object column holds
  Python strings, Python booleans and the float NaN.
\<close>

datatype dictval =
    NpFloat64 "rat option"
  | NpInt64 int
  | NpBool bool
  | PdTimestamp int
  | PdNaT
  | PyNaN
  | PyNone
  | PyStr string
  | PyBoolean bool
  | PyInt int
  | PyFloat rat

fun obj_box :: "obj option \<Rightarrow> dictval" where
  "obj_box None = PyNaN"
| "obj_box (Some (Str s)) = PyStr s"
| "obj_box (Some (PyBool b)) = PyBoolean b"

fun time_box :: "int option \<Rightarrow> dictval" where
  "time_box None = PdNaT"
| "time_box (Some t) = PdTimestamp t"

fun boxed_cells :: "column \<Rightarrow> dictval list" where
  "boxed_cells (Float64Col xs) = map NpFloat64 xs"
| "boxed_cells (Int64Col xs) = map NpInt64 xs"
| "boxed_cells (ObjectCol xs) = map obj_box xs"
| "boxed_cells (BoolCol xs) = map NpBool xs"
| "boxed_cells (DatetimeCol xs) = map time_box xs"

text \<open>\<^verbatim>\<open>record.iloc[0].to_dict()\<close>: the first row, column by column.\<close>

definition iloc0_to_dict :: "dataframe \<Rightarrow> (string \<times> dictval) list" where
  "iloc0_to_dict df = map (\<lambda>(n, c). (n, boxed_cells c ! 0)) df"

text \<open>
  \<^verbatim>\<open>self.data['gameid'] == record_id\<close> compares every cell with the string
  \<open>record_id\<close>; a cell that is not a string is not equal to it.
\<close>

definition get_record_by_id :: "dataframe \<Rightarrow> string \<Rightarrow> error + (string \<times> dictval) list option" where
  "get_record_by_id df record_id =
     bind (getcol df ''gameid'') (\<lambda>g.
       let record = mask_rows (map (\<lambda>v. v = VStr record_id) (cells g)) df
       in if nrows record = 0 then Inr None else Inr (Some (iloc0_to_dict record)))"

subsection \<open>\<^verbatim>\<open>records.get_record\<close>\<close>

fun pd_isna :: "dictval \<Rightarrow> bool" where
  "pd_isna (NpFloat64 None) = True"
| "pd_isna PdNaT = True"
| "pd_isna PyNaN = True"
| "pd_isna PyNone = True"
| "pd_isna _ = False"

fun is_timestamp :: "dictval \<Rightarrow> bool" where
  "is_timestamp (PdTimestamp _) = True"
| "is_timestamp PdNaT = True"
| "is_timestamp _ = False"

text \<open>\<^verbatim>\<open>hasattr(value, 'dtype')\<close> holds of the numpy scalars.\<close>

fun has_dtype :: "dictval \<Rightarrow> bool" where
  "has_dtype (NpFloat64 _) = True"
| "has_dtype (NpInt64 _) = True"
| "has_dtype (NpBool _) = True"
| "has_dtype _ = False"

fun py_str :: "pandas \<Rightarrow> dictval \<Rightarrow> string" where
  "py_str P (PdTimestamp t) = timestamp_str P t"
| "py_str P _ = ''NaT''"

fun item :: "dictval \<Rightarrow> dictval" where
  "item (NpFloat64 None) = PyNaN"
| "item (NpFloat64 (Some x)) = PyFloat x"
| "item (NpInt64 i) = PyInt i"
| "item (NpBool b) = PyBoolean b"
| "item v = v"

text \<open>The body of the loop over \<^verbatim>\<open>record.items()\<close>.\<close>

definition normalize :: "pandas \<Rightarrow> dictval \<Rightarrow> dictval" where
  "normalize P v =
     (if pd_isna v then PyNone
      else if is_timestamp v then PyStr (py_str P v)
      else if has_dtype v then item v
      else v)"

text \<open>What \<^verbatim>\<open>jsonify\<close> writes as a JSON null, string, boolean or number.\<close>

fun json_safe :: "dictval \<Rightarrow> bool" where
  "json_safe PyNone = True"
| "json_safe (PyStr _) = True"
| "json_safe (PyBoolean _) = True"
| "json_safe (PyInt _) = True"
| "json_safe (PyFloat _) = True"
| "json_safe _ = False"

text \<open>
  The response: the JSON body and the HTTP status.  A message is either the text of the
  route or \<^verbatim>\<open>str(e)\<close> of the exception caught.
\<close>

datatype message = NotFoundText string | ExceptionText error

datatype body = SuccessBody "(string \<times> dictval) list" | ErrorBody message

type_synonym response = "body \<times> nat"

definition msg_not_found :: "string \<Rightarrow> string" where
  "msg_not_found ident = ''Registro com ID '' @ ident @ '' n'' @ a_tilde @ ''o encontrado''"

text \<open>
  The loader of the route is a module-level object; \<open>raw\<close> is the frame that
  \<^verbatim>\<open>load_data\<close> reads when the route runs before any preprocessing.
\<close>

definition ensure_preprocessed :: "pandas \<Rightarrow> dataframe \<Rightarrow> loader \<Rightarrow> error + loader" where
  "ensure_preprocessed P raw L = (case data L of None \<Rightarrow> preprocess_data P raw | Some _ \<Rightarrow> Inr L)"

definition get_record :: "pandas \<Rightarrow> dataframe \<Rightarrow> loader \<Rightarrow> string \<Rightarrow> response" where
  "get_record P raw L ident =
     (case bind (ensure_preprocessed P raw L) (\<lambda>L'.
             case data L' of
               None \<Rightarrow> Inl TypeError
             | Some df \<Rightarrow> get_record_by_id df ident) of
        Inl e \<Rightarrow> (ErrorBody (ExceptionText e), 500)
      | Inr None \<Rightarrow> (ErrorBody (NotFoundText (msg_not_found ident)), 404)
      | Inr (Some record) \<Rightarrow> (SuccessBody (map (\<lambda>(k, v). (k, normalize P v)) record), 200))"


section \<open>Notions used in the statements\<close>

text \<open>The number held by row \<open>i\<close> of an int64 or float64 column (\<open>None\<close>: missing,
  or the column is absent or of another dtype).\<close>

definition number_at :: "dataframe \<Rightarrow> string \<Rightarrow> nat \<Rightarrow> rat option" where
  "number_at df name i =
     (case col df name of
        Some (Float64Col xs) \<Rightarrow> xs ! i
      | Some (Int64Col xs) \<Rightarrow> Some (of_int (xs ! i))
      | _ \<Rightarrow> None)"

text \<open>A column that is absent or of dtype int64 or float64.\<close>

definition numeric_or_absent :: "dataframe \<Rightarrow> string \<Rightarrow> bool" where
  "numeric_or_absent df name =
     (case col df name of None \<Rightarrow> True | Some c \<Rightarrow> dtype_of c = DFloat64 \<or> dtype_of c = DInt64)"

text \<open>No float64, int64 or object column holds a missing value.\<close>

definition no_missing :: "dataframe \<Rightarrow> bool" where
  "no_missing df =
     list_all (\<lambda>(n, c). dtype_of c \<in> {DFloat64, DInt64, DObject} \<longrightarrow> list_all notna (cells c)) df"

text \<open>The columns that the conversion and derivation stages write.\<close>

definition rewritten_cols :: "string list" where
  "rewritten_cols = ''date'' # bool_cols @ [''kda'', ''kill_participation'']"

text \<open>The rows of a group: the indices at which the grouping column holds the key.\<close>

definition rows_of_group :: "pyval list \<Rightarrow> pyval \<Rightarrow> nat list" where
  "rows_of_group gs k = filter (\<lambda>i. gs ! i = k) [0..<length gs]"



text \<open>The values of an int64 or float64 cell.\<close>

fun is_num :: "pyval \<Rightarrow> bool" where
  "is_num VNaN = True"
| "is_num (VFloat _) = True"
| "is_num (VInt _) = True"
| "is_num _ = False"


section \<open>Example frames\<close>







text \<open>
  A raw frame of three rows with a date, a flag column and missing values, the library
  functions that read its dates, and the frame the pipeline makes of it.  The second row
  is a team row: it has no player name.
\<close>

definition example_pandas :: pandas where
  "example_pandas =
     \<lparr>parse_datetime = (\<lambda>s. if s = ''2022-01-10'' then Some (Some 1641772800000000000) else None),
      float_to_ns = (\<lambda>x. \<lfloor>x\<rfloor>),
      timestamp_str = (\<lambda>t. if t = 1641772800000000000 then ''2022-01-10 00:00:00'' else ''?'')\<rparr>"

definition raw_games :: dataframe where
  "raw_games =
     [(''gameid'', ObjectCol [Some (Str ''g1''), Some (Str ''g1''), Some (Str ''g2'')]),
      (''playername'', ObjectCol [Some (Str ''Faker''), None, Some (Str ''Chovy'')]),
      (''teamname'', ObjectCol [Some (Str ''T1''), Some (Str ''T1''), Some (Str ''GEN'')]),
      (''date'', ObjectCol [Some (Str ''2022-01-10''), Some (Str ''2022-01-10''), Some (Str ''2022-01-10'')]),
      (''playoffs'', Int64Col [0, 0, 1]),
      (''result'', Float64Col [Some 1, None, Some 0]),
      (''kills'', Int64Col [5, 12, 2]),
      (''deaths'', Float64Col [Some 1, None, Some 2]),
      (''assists'', Int64Col [3, 30, 0]),
      (''teamkills'', Int64Col [12, 12, 4])]"

definition games :: dataframe where
  "games =
     [(''gameid'', ObjectCol [Some (Str ''g1''), Some (Str ''g1''), Some (Str ''g2'')]),
      (''playername'', ObjectCol [Some (Str ''Faker''), Some (Str ''unknown''), Some (Str ''Chovy'')]),
      (''teamname'', ObjectCol [Some (Str ''T1''), Some (Str ''T1''), Some (Str ''GEN'')]),
      (''date'', DatetimeCol [Some 1641772800000000000, Some 1641772800000000000, Some 1641772800000000000]),
      (''playoffs'', BoolCol [False, False, True]),
      (''result'', Float64Col [Some 1, Some 0, Some 0]),
      (''kills'', Int64Col [5, 12, 2]),
      (''deaths'', Float64Col [Some 1, Some 0, Some 2]),
      (''assists'', Int64Col [3, 30, 0]),
      (''teamkills'', Int64Col [12, 12, 4]),
      (''kda'', Float64Col [Some 8, Some 42, Some 1]),
      (''kill_participation'', Float64Col [Some (2 / 3), Some (7 / 2), Some (1 / 2)])]"

text \<open>The frame \<open>games\<close> with no row left.\<close>

definition games_without_rows :: dataframe where
  "games_without_rows =
     [(''gameid'', ObjectCol []), (''playername'', ObjectCol []), (''teamname'', ObjectCol []),
      (''date'', DatetimeCol []), (''playoffs'', BoolCol []), (''result'', Float64Col []),
      (''kills'', Int64Col []), (''deaths'', Float64Col []), (''assists'', Int64Col []),
      (''teamkills'', Int64Col []), (''kda'', Float64Col []), (''kill_participation'', Float64Col [])]"



text \<open>The loader after \<^verbatim>\<open>preprocess_data\<close> on \<open>raw_games\<close>.\<close>

definition games_loader :: loader where
  "games_loader = \<lparr>data = Some games, player_data = Some games, team_data = Some games_without_rows\<rparr>"


section \<open>Basic facts about errors and frames\<close>

lemma bind_Inr_iff: "bind m f = Inr y \<longleftrightarrow> (\<exists>x. m = Inr x \<and> f x = Inr y)"
  by (cases m) (simp_all add: bind_def)

lemma bind_Inr [simp]: "bind (Inr x) f = f x"
  by (simp add: bind_def)

lemma bind_Inl [simp]: "bind (Inl e) f = Inl e"
  by (simp add: bind_def)

lemma mapM_Inr_length: "mapM f xs = Inr ys \<Longrightarrow> length ys = length xs"
  by (induction xs arbitrary: ys) (auto split: sum.splits)

lemma mapM_Inr_nth: "mapM f xs = Inr ys \<Longrightarrow> i < length xs \<Longrightarrow> f (xs ! i) = Inr (ys ! i)"
proof (induction xs arbitrary: ys i)
  case Nil
  then show ?case by simp
next
  case (Cons x xs)
  then show ?case by (cases i) (auto split: sum.splits)
qed

lemma mapM_total: "(\<And>x. x \<in> set xs \<Longrightarrow> \<exists>y. f x = Inr y) \<Longrightarrow> \<exists>ys. mapM f xs = Inr ys"
proof (induction xs)
  case Nil
  then show ?case by simp
next
  case (Cons x xs)
  then obtain y where "f x = Inr y" by auto
  moreover from Cons obtain ys where "mapM f xs = Inr ys" by auto
  ultimately show ?case by simp
qed

lemma columns_set_column:
  "columns (set_column name c df) = (if name \<in> set (columns df) then columns df else columns df @ [name])"
  by (auto simp: set_column_def columns_def intro!: map_idI split: prod.splits)

lemma col_set_column: "col (set_column name c df) m = (if m = name then Some c else col df m)"
proof (cases "name \<in> set (columns df)")
  case True
  have "map_of (map (\<lambda>(n, d). if n = name then (n, c) else (n, d)) df) m
          = (if m = name then (if name \<in> fst ` set df then Some c else None) else map_of df m)"
    by (induction df) force+
  with True show ?thesis by (simp add: set_column_def col_def columns_def)
next
  case False
  then have "map_of df name = None" by (simp add: columns_def map_of_eq_None_iff)
  with False show ?thesis by (auto simp: set_column_def col_def map_add_def split: option.splits)
qed

lemma col_None_iff: "col df name = None \<longleftrightarrow> name \<notin> set (columns df)"
  by (simp add: col_def columns_def map_of_eq_None_iff)

lemma nrows_set_column:
  "df \<noteq> [] \<Longrightarrow> col_len c = nrows df \<Longrightarrow> nrows (set_column name c df) = nrows df"
  by (cases df) (auto simp: set_column_def columns_def)

lemma wf_frame_set_column:
  assumes "wf_frame df" "col_len c = nrows df" "df \<noteq> []"
  shows "wf_frame (set_column name c df)"
proof -
  have n: "nrows (set_column name c df) = nrows df" using assms(3,2) by (rule nrows_set_column)
  have d: "distinct (columns (set_column name c df))"
    using assms(1) by (simp add: columns_set_column wf_frame_def)
  have "\<forall>(n, k) \<in> set (set_column name c df). col_len k = nrows df"
    using assms(1,2) by (auto simp: set_column_def wf_frame_def split: if_splits)
  with n d show ?thesis by (simp add: wf_frame_def)
qed

lemma wf_frame_col_len: "wf_frame df \<Longrightarrow> col df name = Some c \<Longrightarrow> col_len c = nrows df"
  by (auto simp: wf_frame_def col_def dest!: map_of_SomeD)

lemma notna_simps [simp]:
  "notna (VFloat x)" "notna (VInt i)" "notna (VStr s)" "notna (VBool b)" "notna (VTimestamp t)"
  "\<not> notna VNaN" "\<not> notna VNaT"
  by (simp_all add: notna_def)


section \<open>The derived features\<close>

lemma apply_axis1_Inr:
  assumes "apply_axis1 f df = Inr c"
  shows "\<exists>ns. c = series_of ns \<and> length ns = nrows df \<and> 0 < nrows df \<and>
              (\<forall>i<nrows df. f (row_at df i) = Inr (ns ! i))"
proof -
  from assms have pos: "0 < nrows df"
    by (auto simp: apply_axis1_def split: if_splits)
  with assms obtain ns where m: "mapM (\<lambda>i. f (row_at df i)) [0..<nrows df] = Inr ns" and c: "c = series_of ns"
    by (auto simp: apply_axis1_def bind_Inr_iff)
  from mapM_Inr_length[OF m] have l: "length ns = nrows df" by simp
  have "\<forall>i<nrows df. f (row_at df i) = Inr (ns ! i)"
  proof (intro allI impI)
    fix i assume "i < nrows df"
    with mapM_Inr_nth[OF m, of i] show "f (row_at df i) = Inr (ns ! i)" by simp
  qed
  with c l pos show ?thesis by blast
qed






lemma py_truediv_not_int: "py_truediv a b = Inr x \<Longrightarrow> \<not> is_int x"
  by (auto simp: py_truediv_def split: option.splits if_splits)

lemma kda_lambda_not_int: "kda_lambda r = Inr x \<Longrightarrow> \<not> is_int x"
  by (auto simp: kda_lambda_def bind_Inr_iff dest: py_truediv_not_int)

lemma series_of_float:
  assumes "ns \<noteq> []" "\<forall>x \<in> set ns. \<not> is_int x"
  shows "series_of ns = Float64Col (map to_rat ns)"
  using assms by (cases ns) (auto simp: series_of_def)

lemma col_len_series_of: "col_len (series_of ns) = length ns"
  by (simp add: series_of_def col_len_def)

lemma has_columns_nonempty: "has_columns df (n # ns) \<Longrightarrow> df \<noteq> []"
  by (auto simp: has_columns_def columns_def)

lemma add_kda_Inr:
  assumes "add_kda df = Inr df1"
  shows "(has_columns df [''kills'', ''deaths'', ''assists''] \<longrightarrow>
            (\<exists>ns. df1 = set_column ''kda'' (Float64Col (map to_rat ns)) df \<and> length ns = nrows df \<and>
                  0 < nrows df \<and> (\<forall>i<nrows df. kda_lambda (row_at df i) = Inr (ns ! i))))
       \<and> (\<not> has_columns df [''kills'', ''deaths'', ''assists''] \<longrightarrow> df1 = df)"
proof (cases "has_columns df [''kills'', ''deaths'', ''assists'']")
  case True
  with assms obtain c where c: "apply_axis1 kda_lambda df = Inr c" and d: "df1 = set_column ''kda'' c df"
    by (auto simp: add_kda_def bind_Inr_iff)
  from apply_axis1_Inr[OF c] obtain ns where ns: "c = series_of ns" "length ns = nrows df" "0 < nrows df"
     "\<forall>i<nrows df. kda_lambda (row_at df i) = Inr (ns ! i)" by blast
  have "\<forall>x \<in> set ns. \<not> is_int x"
  proof
    fix x assume "x \<in> set ns"
    then obtain i where "i < length ns" "ns ! i = x" by (auto simp: in_set_conv_nth)
    with ns(2,4) have "kda_lambda (row_at df i) = Inr x" by auto
    then show "\<not> is_int x" by (rule kda_lambda_not_int)
  qed
  moreover from ns(2,3) have "ns \<noteq> []" by auto
  ultimately have "c = Float64Col (map to_rat ns)" using ns(1) by (simp add: series_of_float)
  with d have "df1 = set_column ''kda'' (Float64Col (map to_rat ns)) df" by simp
  with ns(2-4) True show ?thesis by (intro conjI impI exI[of _ ns]) simp_all
next
  case False
  with assms show ?thesis by (simp add: add_kda_def)
qed








lemma number_at_set_column:
  "name \<noteq> m \<Longrightarrow> number_at (set_column m c df) name i = number_at df name i"
  by (simp add: number_at_def col_set_column)

lemma add_kda_facts:
  assumes "add_kda df = Inr df1" "wf_frame df"
  shows "wf_frame df1" "nrows df1 = nrows df" "\<And>name. name \<noteq> ''kda'' \<Longrightarrow> col df1 name = col df name"
        "set (columns df) \<subseteq> set (columns df1)" "set (columns df1) \<subseteq> insert ''kda'' (set (columns df))"
proof -
  note k = add_kda_Inr[OF assms(1)]
  show "wf_frame df1"
  proof (cases "has_columns df [''kills'', ''deaths'', ''assists'']")
    case True
    with k obtain ns where ns: "df1 = set_column ''kda'' (Float64Col (map to_rat ns)) df" "length ns = nrows df"
      by blast
    from True have "df \<noteq> []" by (rule has_columns_nonempty)
    with ns assms(2) show ?thesis by (simp add: wf_frame_set_column col_len_def)
  next
    case False
    with k assms(2) show ?thesis by simp
  qed
  show "nrows df1 = nrows df"
  proof (cases "has_columns df [''kills'', ''deaths'', ''assists'']")
    case True
    with k obtain ns where ns: "df1 = set_column ''kda'' (Float64Col (map to_rat ns)) df" "length ns = nrows df"
      by blast
    from True have "df \<noteq> []" by (rule has_columns_nonempty)
    with ns show ?thesis by (simp add: nrows_set_column col_len_def)
  next
    case False
    with k show ?thesis by simp
  qed
  show "\<And>name. name \<noteq> ''kda'' \<Longrightarrow> col df1 name = col df name"
    using k by (cases "has_columns df [''kills'', ''deaths'', ''assists'']") (auto simp: col_set_column)
  show "set (columns df) \<subseteq> set (columns df1)"
    using k by (cases "has_columns df [''kills'', ''deaths'', ''assists'']") (auto simp: columns_set_column)
  show "set (columns df1) \<subseteq> insert ''kda'' (set (columns df))"
    using k by (cases "has_columns df [''kills'', ''deaths'', ''assists'']")
               (auto simp: columns_set_column split: if_splits)
qed






text \<open>
  The stage returns on every well-formed frame with at least one row whose source
  columns, where present, are of dtype int64 or float64.
\<close>

lemma numeric_cell:
  assumes "numeric_or_absent df name" "row_at df i name = Some v" "wf_frame df" "i < nrows df"
  shows "is_num v"
proof -
  from assms(2) obtain c where c: "col df name = Some c" and v: "v = cells c ! i"
    by (auto simp: row_at_def)
  from assms(3) c have "col_len c = nrows df" by (rule wf_frame_col_len)
  with assms(4) have i: "i < length (cells c)" by (simp add: col_len_def)
  from assms(1) c have "dtype_of c = DFloat64 \<or> dtype_of c = DInt64"
    by (simp add: numeric_or_absent_def)
  then show ?thesis
  proof (cases c)
    case (Float64Col xs)
    with i v show ?thesis by (cases "xs ! i") simp_all
  next
    case (Int64Col xs)
    with i v show ?thesis by simp
  qed simp_all
qed

lemma row_at_Some:
  "name \<in> set (columns df) \<Longrightarrow> \<exists>v. row_at df i name = Some v"
  using col_None_iff[of df name] by (auto simp: row_at_def)

lemma py_gt_num: "is_num a \<Longrightarrow> \<exists>g. py_gt a n = Inr g"
  by (cases a) (auto simp: py_gt_def)

lemma py_max1_num: "is_num d \<Longrightarrow> \<exists>m. py_max1 d = Inr m \<and> is_num m \<and> m \<noteq> VInt 0 \<and> m \<noteq> VFloat 0"
  by (cases d) (auto simp: py_max1_def py_gt_def split: option.splits)

lemma py_add_num: "is_num a \<Longrightarrow> is_num b \<Longrightarrow> \<exists>s. py_add a b = Inr s \<and> is_num s"
proof -
  assume a: "is_num a" and b: "is_num b"
  then obtain x y where xy: "as_number a = Some x" "as_number b = Some y"
    by (cases a; cases b) auto
  from a b have "py_add a b = (case (as_number a, as_number b) of
        (Some x, Some y) \<Rightarrow> Inr (number_val (number_add x y)) | _ \<Rightarrow> Inl TypeError)"
    by (cases a; cases b) simp_all
  with xy have "py_add a b = Inr (number_val (number_add x y))" by simp
  moreover have "is_num (number_val z)" for z by (cases z) simp_all
  ultimately show ?thesis by blast
qed

lemma py_truediv_num:
  assumes "is_num s" "is_num m" "m \<noteq> VInt 0" "m \<noteq> VFloat 0"
  shows "\<exists>x. py_truediv s m = Inr x"
  using assms by (cases s; cases m) (auto simp: py_truediv_def)

lemma ratio_num:
  assumes "is_num k" "is_num a" "is_num d"
  shows "\<exists>x. bind (py_add k a) (\<lambda>s. bind (py_max1 d) (\<lambda>m. py_truediv s m)) = Inr x"
proof -
  from py_add_num[OF assms(1,2)] obtain s where s: "py_add k a = Inr s" "is_num s" by blast
  from py_max1_num[OF assms(3)] obtain m where
    m: "py_max1 d = Inr m" "is_num m" "m \<noteq> VInt 0" "m \<noteq> VFloat 0" by blast
  from py_truediv_num[OF s(2) m(2,3,4)] obtain x where "py_truediv s m = Inr x" by blast
  with s(1) m(1) show ?thesis by simp
qed

lemma apply_axis1_total:
  assumes "0 < nrows df" "\<And>i. i < nrows df \<Longrightarrow> \<exists>x. f (row_at df i) = Inr x"
  shows "\<exists>c. apply_axis1 f df = Inr c"
proof -
  have "\<exists>ns. mapM (\<lambda>i. f (row_at df i)) [0..<nrows df] = Inr ns"
    by (rule mapM_total) (use assms(2) in auto)
  with assms(1) show ?thesis by (auto simp: apply_axis1_def)
qed

lemma add_derived_features_total:
  assumes wf: "wf_frame df" and pos: "0 < nrows df"
      and num: "\<forall>name\<in>set [''kills'', ''deaths'', ''assists'', ''teamkills'']. numeric_or_absent df name"
  shows "\<exists>df'. add_derived_features df = Inr df'"
proof -
  have "\<exists>df1. add_kda df = Inr df1"
  proof (cases "has_columns df [''kills'', ''deaths'', ''assists'']")
    case True
    have "\<exists>x. kda_lambda (row_at df i) = Inr x" if i: "i < nrows df" for i
    proof -
      from True obtain k a d where
        r: "row_at df i ''kills'' = Some k" "row_at df i ''assists'' = Some a" "row_at df i ''deaths'' = Some d"
        using row_at_Some[of _ df i] by (auto simp: has_columns_def) metis
      from num have "is_num k" "is_num a" "is_num d"
        using r wf i by (auto intro: numeric_cell)
      from ratio_num[OF this] r show ?thesis by (simp add: kda_lambda_def getitem_def)
    qed
    with pos have "\<exists>c. apply_axis1 kda_lambda df = Inr c" by (intro apply_axis1_total)
    with True show ?thesis by (auto simp: add_kda_def)
  next
    case False
    then show ?thesis by (simp add: add_kda_def)
  qed
  then obtain df1 where d1: "add_kda df = Inr df1" by blast
  note f = add_kda_facts[OF d1 wf]
  have num1: "numeric_or_absent df1 name" if "name \<in> set [''kills'', ''assists'', ''teamkills'']" for name
  proof -
    from that have "name \<noteq> ''kda''" by auto
    with f(3) have "col df1 name = col df name" by simp
    with num that show ?thesis by (auto simp: numeric_or_absent_def)
  qed
  have "\<exists>df'. add_kill_participation df1 = Inr df'"
  proof (cases "has_columns df1 [''kills'', ''assists'', ''teamkills'']")
    case True
    have "\<exists>x. kill_participation_lambda (row_at df1 i) = Inr x" if i: "i < nrows df1" for i
    proof -
      from True obtain k a t where
        r: "row_at df1 i ''kills'' = Some k" "row_at df1 i ''assists'' = Some a"
           "row_at df1 i ''teamkills'' = Some t"
        using row_at_Some[of _ df1 i] by (auto simp: has_columns_def) metis
      from num1 have n: "is_num k" "is_num a" "is_num t"
        using r f(1) i by (auto intro: numeric_cell)
      from py_gt_num[OF n(3)] obtain g where g: "py_gt t 0 = Inr g" by blast
      from ratio_num[OF n] obtain x where
        "bind (py_add k a) (\<lambda>s. bind (py_max1 t) (\<lambda>m. py_truediv s m)) = Inr x" by blast
      with r g show ?thesis by (cases g) (simp_all add: kill_participation_lambda_def getitem_def)
    qed
    moreover from pos f(2) have "0 < nrows df1" by simp
    ultimately have "\<exists>c. apply_axis1 kill_participation_lambda df1 = Inr c"
      by (intro apply_axis1_total)
    with True show ?thesis by (auto simp: add_kill_participation_def)
  next
    case False
    then show ?thesis by (simp add: add_kill_participation_def)
  qed
  with d1 show ?thesis by (simp add: add_derived_features_def)
qed


section \<open>The stages of the pipeline\<close>

subsection \<open>Missing values\<close>

lemma update_cols_selected:
  assumes "\<And>c. dtype_of c \<notin> set include \<Longrightarrow> f c = c"
  shows "update_cols (select_dtypes include df) f df = map (\<lambda>(n, c). (n, f c)) df"
proof -
  have "(if n \<in> set (select_dtypes include df) then (n, f c) else (n, c)) = (n, f c)"
    if "(n, c) \<in> set df" for n c
  proof (cases "dtype_of c \<in> set include")
    case True
    with that have "n \<in> set (select_dtypes include df)"
      by (force simp: select_dtypes_def)
    then show ?thesis by simp
  next
    case False
    then show ?thesis by (simp add: assms)
  qed
  then show ?thesis
    by (auto simp: update_cols_def)
qed

lemma fillna_zero_other: "dtype_of c \<notin> set [DFloat64, DInt64] \<Longrightarrow> fillna_zero c = c"
  by (cases c) simp_all

lemma fillna_unknown_other: "dtype_of c \<notin> set [DObject] \<Longrightarrow> fillna_unknown c = c"
  by (cases c) simp_all

lemma handle_missing_values_eq:
  "handle_missing_values df = map (\<lambda>(n, c). (n, fillna_unknown (fillna_zero c))) df"
proof -
  have 1: "update_cols (select_dtypes [DFloat64, DInt64] df) fillna_zero df
             = map (\<lambda>(n, c). (n, fillna_zero c)) df"
    by (rule update_cols_selected) (rule fillna_zero_other)
  have 2: "update_cols (select_dtypes [DObject] d) fillna_unknown d
             = map (\<lambda>(n, c). (n, fillna_unknown c)) d" for d
    by (rule update_cols_selected) (rule fillna_unknown_other)
  show ?thesis
    unfolding handle_missing_values_def Let_def 1 2
    by (simp add: case_prod_unfold comp_def)
qed

lemma notna_obj_val [simp]: "notna (obj_val (Some x))"
  by (cases x) simp_all

lemma fill_notna:
  "dtype_of c \<in> {DFloat64, DInt64, DObject} \<Longrightarrow> v \<in> set (cells (fillna_unknown (fillna_zero c))) \<Longrightarrow> notna v"
  by (cases c) (auto split: option.splits)

lemma fill_dtype [simp]: "dtype_of (fillna_unknown (fillna_zero c)) = dtype_of c"
  by (cases c) simp_all

lemma fill_len [simp]: "col_len (fillna_unknown (fillna_zero c)) = col_len c"
  by (cases c) (simp_all add: col_len_def)


lemma no_missing_handle_missing_values: "no_missing (handle_missing_values df)"
  by (auto simp: no_missing_def handle_missing_values_eq list_all_iff intro: fill_notna)

lemma columns_handle_missing_values [simp]: "columns (handle_missing_values df) = columns df"
  by (simp add: handle_missing_values_eq columns_def comp_def case_prod_unfold)

lemma nrows_handle_missing_values [simp]: "nrows (handle_missing_values df) = nrows df"
  by (cases df) (auto simp: handle_missing_values_eq)

lemma col_handle_missing_values:
  "col (handle_missing_values df) name = map_option (\<lambda>c. fillna_unknown (fillna_zero c)) (col df name)"
  unfolding handle_missing_values_eq col_def by (induction df) auto

lemma wf_frame_handle_missing_values: "wf_frame df \<Longrightarrow> wf_frame (handle_missing_values df)"
  unfolding wf_frame_def columns_handle_missing_values nrows_handle_missing_values
  by (auto simp: handle_missing_values_eq)



subsection \<open>Type conversion\<close>


lemma col_Some_nonempty: "col df name = Some c \<Longrightarrow> df \<noteq> []"
  by (auto simp: col_def)

lemma col_Some_in_columns: "col df name = Some c \<Longrightarrow> name \<in> set (columns df)"
  using col_None_iff[of df name] by auto

lemma col_Some_mem: "col df name = Some c \<Longrightarrow> (name, c) \<in> set df"
  by (auto simp: col_def dest: map_of_SomeD)

lemma no_missing_set_column:
  assumes "no_missing df" "dtype_of c \<in> {DFloat64, DInt64, DObject} \<longrightarrow> list_all notna (cells c)"
  shows "no_missing (set_column name c df)"
  using assms by (auto simp: no_missing_def set_column_def list_all_iff split: if_splits)

lemma to_datetime_Inr:
  assumes "to_datetime P c = Inr c'"
  shows "dtype_of c' = DDatetime64" "col_len c' = col_len c"
proof -
  show "dtype_of c' = DDatetime64"
    using assms by (cases c) (auto simp: bind_Inr_iff)
  show "col_len c' = col_len c"
    using assms by (cases c) (auto simp: bind_Inr_iff col_len_def dest: mapM_Inr_length)
qed


lemma astype_bool_Inr:
  assumes "astype_bool c = Inr c'"
  shows "dtype_of c' = DBool" "col_len c' = col_len c"
  using assms by (cases c; auto simp: col_len_def)+


lemma convert_bool_cols_Inr:
  assumes "convert_bool_cols cs df = Inr df'" "wf_frame df"
  shows "wf_frame df' \<and> nrows df' = nrows df \<and> columns df' = columns df \<and>
         (\<forall>n. n \<notin> set cs \<longrightarrow> col df' n = col df n) \<and>
         (\<forall>n\<in>set cs. \<forall>c. col df' n = Some c \<longrightarrow> dtype_of c = DBool) \<and>
         (no_missing df \<longrightarrow> no_missing df')"
  using assms
proof (induction cs arbitrary: df)
  case Nil
  then show ?case by simp
next
  case (Cons c cs)
  show ?case
  proof (cases "col df c")
    case None
    with Cons.prems have r: "convert_bool_cols cs df = Inr df'" by simp
    note ih = Cons.IH[OF r Cons.prems(2)]
    have "\<forall>k. col df' c = Some k \<longrightarrow> dtype_of k = DBool"
    proof (cases "c \<in> set cs")
      case True
      with ih show ?thesis by blast
    next
      case False
      with ih None show ?thesis by simp
    qed
    with ih show ?thesis by auto
  next
    case (Some k)
    with Cons.prems obtain k' where k': "astype_bool k = Inr k'"
        and r: "convert_bool_cols cs (set_column c k' df) = Inr df'"
      by (auto simp: bind_Inr_iff)
    let ?d = "set_column c k' df"
    from Some have ne: "df \<noteq> []" by (rule col_Some_nonempty)
    from Some Cons.prems(2) have "col_len k = nrows df" by (simp add: wf_frame_col_len)
    with astype_bool_Inr[OF k'] have len: "col_len k' = nrows df" by simp
    have wf: "wf_frame ?d" using Cons.prems(2) len ne by (rule wf_frame_set_column)
    have nr: "nrows ?d = nrows df" using ne len by (rule nrows_set_column)
    have cols: "columns ?d = columns df"
      using col_Some_in_columns[OF Some] by (simp add: columns_set_column)
    note ih = Cons.IH[OF r wf]
    have b: "\<forall>k. col df' c = Some k \<longrightarrow> dtype_of k = DBool"
    proof (cases "c \<in> set cs")
      case True
      with ih show ?thesis by blast
    next
      case False
      with ih have "col df' c = Some k'" by (simp add: col_set_column)
      with astype_bool_Inr(1)[OF k'] show ?thesis by simp
    qed
    have nm: "no_missing df \<longrightarrow> no_missing ?d"
      using astype_bool_Inr(1)[OF k'] by (auto intro!: no_missing_set_column)
    from ih nr cols b nm show ?thesis by (auto simp: col_set_column)
  qed
qed


lemma bool_cols_no_date: "''date'' \<notin> set bool_cols"
  by (simp add: bool_cols_def)

lemma convert_data_types_Inr:
  assumes "convert_data_types P df = Inr df'" "wf_frame df"
  shows "wf_frame df' \<and> nrows df' = nrows df \<and> columns df' = columns df \<and>
         (\<forall>n. n \<noteq> ''date'' \<and> n \<notin> set bool_cols \<longrightarrow> col df' n = col df n) \<and>
         (\<forall>c. col df' ''date'' = Some c \<longrightarrow> dtype_of c = DDatetime64) \<and>
         (\<forall>n\<in>set bool_cols. \<forall>c. col df' n = Some c \<longrightarrow> dtype_of c = DBool) \<and>
         (no_missing df \<longrightarrow> no_missing df')"
proof -
  from assms(1) obtain df0 where
    d0: "(case col df ''date'' of None \<Rightarrow> Inr df
          | Some d \<Rightarrow> bind (to_datetime P d) (\<lambda>d'. Inr (set_column ''date'' d' df))) = Inr df0"
    and r: "convert_bool_cols bool_cols df0 = Inr df'"
    by (auto simp: convert_data_types_def bind_Inr_iff)
  have 0: "wf_frame df0 \<and> nrows df0 = nrows df \<and> columns df0 = columns df \<and>
           (\<forall>n. n \<noteq> ''date'' \<longrightarrow> col df0 n = col df n) \<and>
           (\<forall>c. col df0 ''date'' = Some c \<longrightarrow> dtype_of c = DDatetime64) \<and>
           (no_missing df \<longrightarrow> no_missing df0)"
  proof (cases "col df ''date''")
    case None
    with d0 assms(2) show ?thesis by auto
  next
    case (Some d)
    with d0 obtain d' where d': "to_datetime P d = Inr d'" and e: "df0 = set_column ''date'' d' df"
      by (auto simp: bind_Inr_iff)
    from Some have ne: "df \<noteq> []" by (rule col_Some_nonempty)
    from Some assms(2) have "col_len d = nrows df" by (simp add: wf_frame_col_len)
    with to_datetime_Inr[OF d'] have len: "col_len d' = nrows df" by simp
    have "wf_frame df0" unfolding e using assms(2) len ne by (rule wf_frame_set_column)
    moreover have "nrows df0 = nrows df" unfolding e using ne len by (rule nrows_set_column)
    moreover have "columns df0 = columns df"
      using col_Some_in_columns[OF Some] by (simp add: e columns_set_column)
    moreover have "no_missing df \<longrightarrow> no_missing df0"
      unfolding e using to_datetime_Inr(1)[OF d'] by (auto intro!: no_missing_set_column)
    ultimately show ?thesis using to_datetime_Inr(1)[OF d'] by (simp add: e col_set_column)
  qed
  then have wf0: "wf_frame df0" by simp
  note c = convert_bool_cols_Inr[OF r wf0]
  from c 0 bool_cols_no_date show ?thesis by auto
qed




subsection \<open>Derived features\<close>

lemma cell_not_nan:
  assumes "wf_frame df" "no_missing df" "i < nrows df" "row_at df i name = Some v"
  shows "v \<noteq> VNaN"
proof -
  from assms(4) obtain c where c: "col df name = Some c" and v: "v = cells c ! i"
    by (auto simp: row_at_def)
  from c assms(1) have "col_len c = nrows df" by (simp add: wf_frame_col_len)
  with assms(3) have i: "i < length (cells c)" by (simp add: col_len_def)
  from c have m: "(name, c) \<in> set df" by (rule col_Some_mem)
  show ?thesis
  proof (cases "dtype_of c \<in> {DFloat64, DInt64, DObject}")
    case True
    with m assms(2) have "list_all notna (cells c)" by (auto simp: no_missing_def list_all_iff)
    with i v have "notna v" by (simp add: list_all_length)
    then show ?thesis by auto
  next
    case False
    have tv: "VNaN \<noteq> time_val t" for t by (cases t) simp_all
    from False have "VNaN \<notin> set (cells c)"
      by (cases c) (auto simp: tv)
    with i v show ?thesis by (metis nth_mem)
  qed
qed

lemma as_number_not_nan: "v \<noteq> VNaN \<Longrightarrow> as_number v = Some x \<Longrightarrow> x \<noteq> NNaN"
  by (cases v) (auto split: if_splits)

lemma to_rat_None_iff: "to_rat x = None \<longleftrightarrow> x = NNaN"
  by (cases x) simp_all

lemma number_add_not_nan: "x \<noteq> NNaN \<Longrightarrow> y \<noteq> NNaN \<Longrightarrow> number_add x y \<noteq> NNaN"
  by (cases x; cases y) simp_all

lemma number_val_nan_iff: "number_val x = VNaN \<longleftrightarrow> x = NNaN"
  by (cases x) simp_all

lemma py_add_not_nan:
  assumes "a \<noteq> VNaN" "b \<noteq> VNaN" "py_add a b = Inr s"
  shows "s \<noteq> VNaN"
proof (cases "\<exists>x y. a = VStr x \<and> b = VStr y")
  case True
  with assms(3) show ?thesis by auto
next
  case False
  then have "py_add a b = (case (as_number a, as_number b) of
        (Some x, Some y) \<Rightarrow> Inr (number_val (number_add x y)) | _ \<Rightarrow> Inl TypeError)"
    by (cases a; cases b) simp_all
  with assms(3) obtain x y where xy: "as_number a = Some x" "as_number b = Some y"
      and s: "s = number_val (number_add x y)"
    by (auto split: option.splits)
  from xy assms(1,2) have "x \<noteq> NNaN" "y \<noteq> NNaN" by (auto dest: as_number_not_nan)
  then show ?thesis by (simp add: s number_val_nan_iff number_add_not_nan)
qed

lemma py_max1_not_nan: "a \<noteq> VNaN \<Longrightarrow> py_max1 a = Inr m \<Longrightarrow> m \<noteq> VNaN"
  by (auto simp: py_max1_def bind_Inr_iff split: if_splits)

lemma py_truediv_not_nan:
  assumes "a \<noteq> VNaN" "b \<noteq> VNaN" "py_truediv a b = Inr x"
  shows "x \<noteq> NNaN"
proof -
  from assms(3) obtain p q where pq: "as_number a = Some p" "as_number b = Some q"
    by (auto simp: py_truediv_def split: option.splits)
  with assms(1,2) have "p \<noteq> NNaN" "q \<noteq> NNaN" by (auto dest: as_number_not_nan)
  then obtain u v where "to_rat p = Some u" "to_rat q = Some v"
    using to_rat_None_iff by (metis not_Some_eq)
  with pq assms(3) show ?thesis by (auto simp: py_truediv_def split: if_splits)
qed

lemma getitem_Inr: "getitem r name = Inr v \<longleftrightarrow> r name = Some v"
  by (auto simp: getitem_def split: option.splits)

lemma kda_lambda_not_nan:
  assumes "\<And>name v. r name = Some v \<Longrightarrow> v \<noteq> VNaN" "kda_lambda r = Inr x"
  shows "x \<noteq> NNaN"
proof -
  from assms(2) obtain k a s d m where
    "r ''kills'' = Some k" "r ''assists'' = Some a" "py_add k a = Inr s"
    "r ''deaths'' = Some d" "py_max1 d = Inr m" "py_truediv s m = Inr x"
    by (auto simp: kda_lambda_def bind_Inr_iff getitem_Inr)
  note h = this
  from assms(1) h(1,2) have "k \<noteq> VNaN" "a \<noteq> VNaN" by blast+
  then have "s \<noteq> VNaN" using h(3) by (rule py_add_not_nan)
  moreover from assms(1) h(4) have "d \<noteq> VNaN" by blast
  then have "m \<noteq> VNaN" using h(5) by (rule py_max1_not_nan)
  ultimately show ?thesis using h(6) by (rule py_truediv_not_nan)
qed

lemma kill_participation_lambda_not_nan:
  assumes "\<And>name v. r name = Some v \<Longrightarrow> v \<noteq> VNaN" "kill_participation_lambda r = Inr x"
  shows "x \<noteq> NNaN"
proof -
  from assms(2) obtain t g where t: "r ''teamkills'' = Some t" "py_gt t 0 = Inr g"
    by (auto simp: kill_participation_lambda_def bind_Inr_iff getitem_Inr)
  show ?thesis
  proof (cases g)
    case True
    with assms(2) t obtain k a s m where
      "r ''kills'' = Some k" "r ''assists'' = Some a" "py_add k a = Inr s"
      "py_max1 t = Inr m" "py_truediv s m = Inr x"
      by (auto simp: kill_participation_lambda_def bind_Inr_iff getitem_Inr)
    note h = this
    from assms(1) h(1,2) have "k \<noteq> VNaN" "a \<noteq> VNaN" by blast+
    then have "s \<noteq> VNaN" using h(3) by (rule py_add_not_nan)
    moreover from assms(1) t(1) have "t \<noteq> VNaN" by blast
    then have "m \<noteq> VNaN" using h(4) by (rule py_max1_not_nan)
    ultimately show ?thesis using h(5) by (rule py_truediv_not_nan)
  next
    case False
    with assms(2) t show ?thesis
      by (auto simp: kill_participation_lambda_def bind_Inr_iff getitem_Inr)
  qed
qed

lemma series_of_notna:
  assumes "\<forall>x\<in>set ns. x \<noteq> NNaN"
  shows "list_all notna (cells (series_of ns))"
proof -
  have "notna (float_val (to_rat x))" if "x \<in> set ns" for x
  proof -
    from that assms have "x \<noteq> NNaN" by auto
    then show ?thesis by (cases x) simp_all
  qed
  then show ?thesis by (auto simp: series_of_def list_all_iff)
qed

text \<open>One derived column: the shape shared by the two halves of the stage.\<close>

lemma derive_facts:
  assumes r: "(if has_columns df (s # ss)
               then bind (apply_axis1 f df) (\<lambda>c. Inr (set_column name c df)) else Inr df) = Inr df1"
      and wf: "wf_frame df"
  shows "wf_frame df1 \<and> nrows df1 = nrows df \<and>
         (\<forall>n. n \<noteq> name \<longrightarrow> col df1 n = col df n) \<and>
         set (columns df) \<subseteq> set (columns df1) \<and>
         set (columns df1) \<subseteq> insert name (set (columns df)) \<and>
         (no_missing df \<and> (\<forall>i x. i < nrows df \<and> f (row_at df i) = Inr x \<longrightarrow> x \<noteq> NNaN)
            \<longrightarrow> no_missing df1) \<and>
         (has_columns df (s # ss) \<longrightarrow> (\<exists>c. apply_axis1 f df = Inr c \<and> col df1 name = Some c)) \<and>
         (\<not> has_columns df (s # ss) \<longrightarrow> df1 = df)"
proof (cases "has_columns df (s # ss)")
  case False
  with r wf show ?thesis by auto
next
  case True
  with r obtain c where c: "apply_axis1 f df = Inr c" and d: "df1 = set_column name c df"
    by (auto simp: bind_Inr_iff)
  from apply_axis1_Inr[OF c] obtain ns where ns: "c = series_of ns" "length ns = nrows df"
      "\<forall>i<nrows df. f (row_at df i) = Inr (ns ! i)" by blast
  from True have ne: "df \<noteq> []" by (rule has_columns_nonempty)
  have len: "col_len c = nrows df" using ns(1,2) by (simp add: col_len_series_of)
  have 1: "wf_frame df1" unfolding d using wf len ne by (rule wf_frame_set_column)
  have 2: "nrows df1 = nrows df" unfolding d using ne len by (rule nrows_set_column)
  have 3: "\<forall>n. n \<noteq> name \<longrightarrow> col df1 n = col df n" by (simp add: d col_set_column)
  have 4: "set (columns df) \<subseteq> set (columns df1)" by (auto simp: d columns_set_column)
  have 5: "set (columns df1) \<subseteq> insert name (set (columns df))"
    by (auto simp: d columns_set_column split: if_splits)
  have 6: "no_missing df1"
    if nm: "no_missing df" and g: "\<forall>i x. i < nrows df \<and> f (row_at df i) = Inr x \<longrightarrow> x \<noteq> NNaN"
  proof -
    have "\<forall>x\<in>set ns. x \<noteq> NNaN"
    proof
      fix x assume "x \<in> set ns"
      then obtain i where "i < length ns" "ns ! i = x" by (auto simp: in_set_conv_nth)
      with ns(2,3) g show "x \<noteq> NNaN" by auto
    qed
    then have "list_all notna (cells c)" unfolding ns(1) by (rule series_of_notna)
    with nm show ?thesis unfolding d by (intro no_missing_set_column) simp_all
  qed
  have 7: "col df1 name = Some c" by (simp add: d col_set_column)
  from 1 2 3 4 5 6 7 c True show ?thesis by blast
qed

lemma add_derived_features_Inr:
  assumes "add_derived_features df = Inr df'" "wf_frame df"
  shows "wf_frame df' \<and> nrows df' = nrows df \<and>
         (\<forall>n. n \<noteq> ''kda'' \<and> n \<noteq> ''kill_participation'' \<longrightarrow> col df' n = col df n) \<and>
         (no_missing df \<longrightarrow> no_missing df')"
proof -
  from assms(1) obtain df1 where d1: "add_kda df = Inr df1" and d2: "add_kill_participation df1 = Inr df'"
    by (auto simp: add_derived_features_def bind_Inr_iff)
  note f1 = derive_facts[OF d1[unfolded add_kda_def] assms(2)]
  then have wf1: "wf_frame df1" by simp
  note f2 = derive_facts[OF d2[unfolded add_kill_participation_def] wf1]
  have nm1: "no_missing df1" if nm: "no_missing df"
  proof -
    have "\<forall>i x. i < nrows df \<and> kda_lambda (row_at df i) = Inr x \<longrightarrow> x \<noteq> NNaN"
      using cell_not_nan[OF assms(2) nm] kda_lambda_not_nan by blast
    with f1 nm show ?thesis by blast
  qed
  have nm2: "no_missing df'" if nm: "no_missing df"
  proof -
    from nm have n1: "no_missing df1" by (rule nm1)
    have "\<forall>i x. i < nrows df1 \<and> kill_participation_lambda (row_at df1 i) = Inr x \<longrightarrow> x \<noteq> NNaN"
      using cell_not_nan[OF wf1 n1] kill_participation_lambda_not_nan by blast
    with f2 n1 show ?thesis by blast
  qed
  from f1 f2 nm2 show ?thesis by auto
qed


subsection \<open>The whole pipeline\<close>

lemma run_pipeline_eq:
  "run_pipeline P raw = bind (convert_data_types P (handle_missing_values raw)) add_derived_features"
  by (simp add: run_pipeline_def cleaning_pipeline_def)

lemma run_pipeline_Inr:
  assumes "run_pipeline P raw = Inr df" "wf_frame raw"
  shows "wf_frame df \<and> nrows df = nrows raw \<and> no_missing df \<and>
         (\<forall>n. n \<notin> set rewritten_cols \<longrightarrow>
               col df n = map_option (\<lambda>c. fillna_unknown (fillna_zero c)) (col raw n))"
proof -
  from assms(1) obtain df2 where
    c: "convert_data_types P (handle_missing_values raw) = Inr df2" and
    d: "add_derived_features df2 = Inr df"
    by (auto simp: run_pipeline_eq bind_Inr_iff)
  have wf1: "wf_frame (handle_missing_values raw)"
    using assms(2) by (rule wf_frame_handle_missing_values)
  note f2 = convert_data_types_Inr[OF c wf1]
  then have wf2: "wf_frame df2" by simp
  note f3 = add_derived_features_Inr[OF d wf2]
  from f2 have nm2: "no_missing df2" by (simp add: no_missing_handle_missing_values)
  have "col df n = map_option (\<lambda>c. fillna_unknown (fillna_zero c)) (col raw n)"
    if "n \<notin> set rewritten_cols" for n
  proof -
    from that have n: "n \<noteq> ''date''" "n \<notin> set bool_cols" "n \<noteq> ''kda''" "n \<noteq> ''kill_participation''"
      by (auto simp: rewritten_cols_def)
    with f3 have "col df n = col df2 n" by simp
    also from f2 n have "\<dots> = col (handle_missing_values raw) n" by simp
    finally show ?thesis by (simp add: col_handle_missing_values)
  qed
  with f2 f3 nm2 show ?thesis by simp
qed




subsection \<open>Running a stage on its own output\<close>

lemma row_at_cong: "col df' n = col df n \<Longrightarrow> row_at df' i n = row_at df i n"
  by (simp add: row_at_def)








section \<open>Win rates\<close>





lemma rows_of_group_empty: "k \<notin> set gs \<Longrightarrow> rows_of_group gs k = []"
  by (auto simp: rows_of_group_def filter_empty_conv)









section \<open>The player and team subsets\<close>

lemma keep_all:
  assumes "length m = length xs" "\<forall>b\<in>set m. b"
  shows "keep m xs = xs"
proof -
  from assms(2) have "filter fst (zip m xs) = zip m xs"
    by (auto simp: filter_id_conv dest: set_zip_leftD)
  with assms(1) show ?thesis by (simp add: keep_def)
qed

lemma keep_none:
  assumes "\<forall>b\<in>set m. \<not> b"
  shows "keep m xs = []"
proof -
  from assms have "filter fst (zip m xs) = []"
    by (auto simp: filter_empty_conv dest: set_zip_leftD)
  then show ?thesis by (simp add: keep_def)
qed

lemma mask_column_all:
  assumes "length m = col_len c" "\<forall>b\<in>set m. b"
  shows "mask_column m c = c"
  using assms by (cases c) (simp_all add: col_len_def keep_all)

lemma mask_column_none:
  assumes "\<forall>b\<in>set m. \<not> b"
  shows "col_len (mask_column m c) = 0"
  using assms by (cases c) (simp_all add: col_len_def keep_none)

lemma mask_rows_all:
  assumes "wf_frame df" "length m = nrows df" "\<forall>b\<in>set m. b"
  shows "mask_rows m df = df"
proof -
  have "mask_column m c = c" if "(n, c) \<in> set df" for n c
  proof -
    from that assms(1) have "col_len c = nrows df" by (auto simp: wf_frame_def)
    with assms(2,3) show ?thesis by (simp add: mask_column_all)
  qed
  then show ?thesis unfolding mask_rows_def by (intro map_idI) auto
qed

lemma mask_rows_none:
  assumes "\<forall>b\<in>set m. \<not> b"
  shows "nrows (mask_rows m df) = 0"
  using assms by (cases df) (auto simp: mask_rows_def mask_column_none)

lemma filled_cells_notna:
  assumes "dtype_of p \<noteq> DDatetime64" "v \<in> set (cells (fillna_unknown (fillna_zero p)))"
  shows "notna v"
proof (cases "dtype_of p \<in> {DFloat64, DInt64, DObject}")
  case True
  then show ?thesis using assms(2) by (rule fill_notna)
next
  case False
  with assms show ?thesis by (cases p) auto
qed

text \<open>
  Whatever the raw frame, the split that follows the pipeline puts every row into the
  player subset and none into the team subset: the missing player names have been
  replaced by \<open>unknown\<close> (or by 0) before the split tests them.
\<close>

lemma split_after_fill:
  assumes "wf_frame raw" and "preprocess_data P raw = Inr L"
      and "col raw ''playername'' = Some p" and "dtype_of p \<noteq> DDatetime64"
  shows "\<exists>df t. data L = Some df \<and> player_data L = Some df \<and> team_data L = Some t \<and> nrows t = 0"
proof -
  from assms(2) obtain df where
    rp: "run_pipeline P raw = Inr df" and
    sp: "split_data \<lparr>data = Some df, player_data = None, team_data = None\<rparr> = Inr L"
    by (auto simp: preprocess_data_def bind_Inr_iff)
  note f = run_pipeline_Inr[OF rp assms(1)]
  then have wf: "wf_frame df" by simp
  have "''playername'' \<notin> set rewritten_cols" by (simp add: rewritten_cols_def bool_cols_def)
  with f assms(3) have pc: "col df ''playername'' = Some (fillna_unknown (fillna_zero p))" by simp
  let ?pc = "fillna_unknown (fillna_zero p)"
  from sp pc obtain tc where
    L: "L = \<lparr>data = Some df, player_data = Some (mask_rows (map notna (cells ?pc)) df),
             team_data = Some (mask_rows (map (\<lambda>(pv, tv). isna pv \<and> notna tv) (zip (cells ?pc) (cells tc))) df)\<rparr>"
    by (auto simp: split_data_def getcol_def bind_Inr_iff Let_def split: option.splits)
  have nn: "\<forall>v\<in>set (cells ?pc). notna v"
    using assms(4) by (auto intro: filled_cells_notna)
  from wf pc have "length (cells ?pc) = nrows df"
    using wf_frame_col_len[of df "''playername''" ?pc] by (simp add: col_len_def)
  then have 1: "mask_rows (map notna (cells ?pc)) df = df"
    using nn by (intro mask_rows_all[OF wf]) auto
  have "\<forall>b\<in>set (map (\<lambda>(pv, tv). isna pv \<and> notna tv) (zip (cells ?pc) (cells tc))). \<not> b"
    using nn by (auto simp: notna_def dest: set_zip_leftD)
  then have 2: "nrows (mask_rows (map (\<lambda>(pv, tv). isna pv \<and> notna tv) (zip (cells ?pc) (cells tc))) df) = 0"
    by (rule mask_rows_none)
  from L 1 2 show ?thesis by simp
qed

text \<open>
  Claim C1 at a concrete input.  The second row of \<open>raw_games\<close> is a team row: its
  player name is missing and its team name is \<open>T1\<close>.  After \<^verbatim>\<open>preprocess_data\<close> the
  row is in the player subset, under the player name \<open>unknown\<close>, and the team subset
  has no row at all.
\<close>

theorem team_row_lands_in_player_subset:
  "col raw_games ''playername'' = Some (ObjectCol [Some (Str ''Faker''), None, Some (Str ''Chovy'')]) \<and>
   col raw_games ''teamname'' = Some (ObjectCol [Some (Str ''T1''), Some (Str ''T1''), Some (Str ''GEN'')]) \<and>
   preprocess_data example_pandas raw_games =
     Inr \<lparr>data = Some games, player_data = Some games, team_data = Some games_without_rows\<rparr> \<and>
   col games ''playername'' = Some (ObjectCol [Some (Str ''Faker''), Some (Str ''unknown''), Some (Str ''Chovy'')]) \<and>
   nrows games_without_rows = 0"
  by code_simp


section \<open>Charts\<close>

subsection \<open>Validation of the requested columns\<close>





subsection \<open>Value counts and the most frequent categories\<close>

lemma set_unique [simp]: "set (unique xs) = set xs"
  by (simp add: unique_def)

lemma distinct_unique [simp]: "distinct (unique xs)"
  by (simp add: unique_def)

















section \<open>Record lookup\<close>

lemma keep_Cons: "keep (b # m) (x # xs) = (if b then x # keep m xs else keep m xs)"
  by (simp add: keep_def)

lemma keep_map: "keep m (map f xs) = map f (keep m xs)"
proof (induction m arbitrary: xs)
  case Nil
  then show ?case by (simp add: keep_def)
next
  case (Cons b m)
  then show ?case by (cases xs) (simp_all add: keep_Cons, simp add: keep_def)
qed

lemma keep_first:
  assumes "i < length xs" "i < length m" "m ! i" "\<forall>j<i. \<not> m ! j"
  shows "keep m xs \<noteq> [] \<and> keep m xs ! 0 = xs ! i"
  using assms
proof (induction m arbitrary: xs i)
  case Nil
  then show ?case by simp
next
  case (Cons b m)
  from Cons.prems(1) obtain x xs' where xs: "xs = x # xs'" by (cases xs) auto
  show ?case
  proof (cases i)
    case 0
    with Cons.prems xs show ?thesis by (simp add: keep_Cons)
  next
    case (Suc k)
    with Cons.prems(4) have nb: "\<not> b" by auto
    from Suc Cons.prems xs have "k < length xs'" "k < length m" "m ! k" by simp_all
    moreover from Suc Cons.prems(4) have "\<forall>j<k. \<not> m ! j" by auto
    ultimately have "keep m xs' \<noteq> [] \<and> keep m xs' ! 0 = xs' ! k" by (rule Cons.IH)
    with nb xs Suc show ?thesis by (simp add: keep_Cons)
  qed
qed

lemma boxed_cells_mask_column: "boxed_cells (mask_column m c) = keep m (boxed_cells c)"
  by (cases c) (simp_all add: keep_map)

lemma cells_mask_column: "cells (mask_column m c) = keep m (cells c)"
  by (cases c) (simp_all add: keep_map)

lemma length_boxed_cells: "length (boxed_cells c) = col_len c"
  by (cases c) (simp_all add: col_len_def)

lemma json_safe_normalize: "json_safe (normalize P v)"
  by (cases v rule: pd_isna.cases) (simp_all add: normalize_def)

lemma normalize_cases:
  "normalize P (NpFloat64 None) = PyNone"
  "normalize P PyNaN = PyNone"
  "normalize P PdNaT = PyNone"
  "normalize P (PdTimestamp t) = PyStr (timestamp_str P t)"
  "normalize P (NpFloat64 (Some x)) = PyFloat x"
  "normalize P (NpInt64 i) = PyInt i"
  "normalize P (NpBool b) = PyBoolean b"
  "normalize P (PyStr s) = PyStr s"
  "normalize P (PyBoolean b) = PyBoolean b"
  by (simp_all add: normalize_def)

lemma get_record_by_id_found:
  assumes wf: "wf_frame df" and g: "col df ''gameid'' = Some g"
      and i: "i < nrows df" "cells g ! i = VStr ident" "\<forall>j<i. cells g ! j \<noteq> VStr ident"
  shows "get_record_by_id df ident = Inr (Some (map (\<lambda>(n, c). (n, boxed_cells c ! i)) df))"
proof -
  let ?m = "map (\<lambda>v. v = VStr ident) (cells g)"
  from wf g have lg: "length (cells g) = nrows df"
    using wf_frame_col_len[of df "''gameid''" g] by (simp add: col_len_def)
  have m: "i < length ?m" "?m ! i" "\<forall>j<i. \<not> ?m ! j"
    using i lg by simp_all
  have row: "boxed_cells (mask_column ?m c) ! 0 = boxed_cells c ! i" if "(n, c) \<in> set df" for n c
  proof -
    from that wf have "col_len c = nrows df" by (auto simp: wf_frame_def)
    with i(1) have "i < length (boxed_cells c)" by (simp add: length_boxed_cells)
    from keep_first[OF this m] show ?thesis by (simp add: boxed_cells_mask_column)
  qed
  have ne: "nrows (mask_rows ?m df) \<noteq> 0"
  proof -
    from g obtain n c rest where df: "df = (n, c) # rest" by (cases df) (auto simp: col_def)
    with wf have "col_len c = nrows df" by (auto simp: wf_frame_def)
    with i(1) have "i < length (cells c)" by (simp add: col_len_def)
    from keep_first[OF this m] have "keep ?m (cells c) \<noteq> []" by simp
    then show ?thesis by (simp add: df mask_rows_def col_len_def cells_mask_column)
  qed
  have "iloc0_to_dict (mask_rows ?m df) = map (\<lambda>(n, c). (n, boxed_cells c ! i)) df"
    using row by (auto simp: iloc0_to_dict_def mask_rows_def)
  with ne g show ?thesis by (simp add: get_record_by_id_def getcol_def Let_def)
qed

lemma get_record_by_id_absent:
  assumes "col df ''gameid'' = Some g" "VStr ident \<notin> set (cells g)"
  shows "get_record_by_id df ident = Inr None"
proof -
  have "nrows (mask_rows (map (\<lambda>v. v = VStr ident) (cells g)) df) = 0"
    using assms(2) by (intro mask_rows_none) auto
  with assms(1) show ?thesis by (simp add: get_record_by_id_def getcol_def Let_def)
qed

text \<open>
  Claim C8.  On a loaded, well-formed dataset the route answers every key with one of
  three structured responses and never raises.  When no \<^verbatim>\<open>gameid\<close> cell equals the key,
  the answer is the not-found error with status 404.  When row \<open>i\<close> is the first one
  whose \<^verbatim>\<open>gameid\<close> equals the key, the answer is the success body holding exactly that
  row, whether or not later rows match too, with every field normalised: a missing value
  to null, a timestamp to its string, a numpy number to the plain number; every value of
  the body is a JSON primitive.  When the dataset has no \<^verbatim>\<open>gameid\<close> column, the KeyError
  is caught and reported as an error body with status 500.
\<close>

theorem record_lookup:
  assumes "wf_frame df" and "data L = Some df"
  shows "(\<forall>g. col df ''gameid'' = Some g \<longrightarrow>
            (VStr ident \<notin> set (cells g) \<longrightarrow>
               get_record P raw L ident = (ErrorBody (NotFoundText (msg_not_found ident)), 404)) \<and>
            (\<forall>i. i < nrows df \<and> cells g ! i = VStr ident \<and> (\<forall>j<i. cells g ! j \<noteq> VStr ident) \<longrightarrow>
               get_record P raw L ident =
                 (SuccessBody (map (\<lambda>(n, c). (n, normalize P (boxed_cells c ! i))) df), 200) \<and>
               (\<forall>(n, v)\<in>set (map (\<lambda>(n, c). (n, normalize P (boxed_cells c ! i))) df). json_safe v)))
       \<and> (col df ''gameid'' = None \<longrightarrow>
            get_record P raw L ident = (ErrorBody (ExceptionText (KeyError ''gameid'')), 500))
       \<and> normalize P (NpFloat64 None) = PyNone \<and> normalize P PyNaN = PyNone \<and> normalize P PdNaT = PyNone
       \<and> (\<forall>t. normalize P (PdTimestamp t) = PyStr (timestamp_str P t))
       \<and> (\<forall>x. normalize P (NpFloat64 (Some x)) = PyFloat x)
       \<and> (\<forall>n. normalize P (NpInt64 n) = PyInt n)
       \<and> (\<forall>b. normalize P (NpBool b) = PyBoolean b)"
proof -
  have e: "ensure_preprocessed P raw L = Inr L"
    using assms(2) by (simp add: ensure_preprocessed_def)
  have gr: "get_record P raw L ident =
     (case get_record_by_id df ident of
        Inl e \<Rightarrow> (ErrorBody (ExceptionText e), 500)
      | Inr None \<Rightarrow> (ErrorBody (NotFoundText (msg_not_found ident)), 404)
      | Inr (Some record) \<Rightarrow> (SuccessBody (map (\<lambda>(k, v). (k, normalize P v)) record), 200))"
    using assms(2) by (simp add: get_record_def e)
  have 1: "get_record P raw L ident = (ErrorBody (NotFoundText (msg_not_found ident)), 404)"
    if "col df ''gameid'' = Some g" "VStr ident \<notin> set (cells g)" for g
    using get_record_by_id_absent[OF that] by (simp add: gr)
  have 2: "get_record P raw L ident =
             (SuccessBody (map (\<lambda>(n, c). (n, normalize P (boxed_cells c ! i))) df), 200)"
    if "col df ''gameid'' = Some g" "i < nrows df \<and> cells g ! i = VStr ident \<and> (\<forall>j<i. cells g ! j \<noteq> VStr ident)"
    for g i
  proof -
    from that have "get_record_by_id df ident = Inr (Some (map (\<lambda>(n, c). (n, boxed_cells c ! i)) df))"
      by (intro get_record_by_id_found[OF assms(1)]) auto
    then show ?thesis by (simp add: gr comp_def case_prod_unfold)
  qed
  have 3: "\<forall>(n, v)\<in>set (map (\<lambda>(n, c). (n, normalize P (boxed_cells c ! i))) df). json_safe v" for i
    by (auto simp: json_safe_normalize)
  have 4: "get_record P raw L ident = (ErrorBody (ExceptionText (KeyError ''gameid'')), 500)"
    if "col df ''gameid'' = None"
    using that by (simp add: gr get_record_by_id_def getcol_def)
  from 1 2 3 4 show ?thesis by (simp add: normalize_cases)
qed

theorem record_lookup_witness:
  "get_record example_pandas raw_games games_loader ''g1'' =
     (SuccessBody
        [(''gameid'', PyStr ''g1''), (''playername'', PyStr ''Faker''), (''teamname'', PyStr ''T1''),
         (''date'', PyStr ''2022-01-10 00:00:00''), (''playoffs'', PyBoolean False),
         (''result'', PyFloat 1), (''kills'', PyInt 5), (''deaths'', PyFloat 1),
         (''assists'', PyInt 3), (''teamkills'', PyInt 12), (''kda'', PyFloat 8),
         (''kill_participation'', PyFloat (2 / 3))], 200) \<and>
   get_record example_pandas raw_games games_loader ''g9'' =
     (ErrorBody (NotFoundText (msg_not_found ''g9'')), 404)"
proof -
  let ?g = "ObjectCol [Some (Str ''g1''), Some (Str ''g1''), Some (Str ''g2'')]"
  have w: "wf_frame games" by code_simp
  have d: "data games_loader = Some games" by (simp add: games_loader_def)
  have g: "col games ''gameid'' = Some ?g" by code_simp
  have absent: "VStr ''g9'' \<notin> set (cells ?g)" by simp
  have first: "0 < nrows games \<and> cells ?g ! 0 = VStr ''g1'' \<and> (\<forall>j<0. cells ?g ! j \<noteq> VStr ''g1'')"
    by (simp add: games_def col_len_def)
  have row: "map (\<lambda>(n, c). (n, normalize example_pandas (boxed_cells c ! 0))) games =
        [(''gameid'', PyStr ''g1''), (''playername'', PyStr ''Faker''), (''teamname'', PyStr ''T1''),
         (''date'', PyStr ''2022-01-10 00:00:00''), (''playoffs'', PyBoolean False),
         (''result'', PyFloat 1), (''kills'', PyInt 5), (''deaths'', PyFloat 1),
         (''assists'', PyInt 3), (''teamkills'', PyInt 12), (''kda'', PyFloat 8),
         (''kill_participation'', PyFloat (2 / 3))]"
    by code_simp
  from record_lookup[OF w d, of "''g9''" example_pandas raw_games] g absent
  have 1: "get_record example_pandas raw_games games_loader ''g9'' =
     (ErrorBody (NotFoundText (msg_not_found ''g9'')), 404)" by blast
  from record_lookup[OF w d, of "''g1''" example_pandas raw_games] g first
  have "get_record example_pandas raw_games games_loader ''g1'' =
     (SuccessBody (map (\<lambda>(n, c). (n, normalize example_pandas (boxed_cells c ! 0))) games), 200)"
    by blast
  with row 1 show ?thesis by simp
qed

end
